theory Spec2Isabelle
  imports Main
begin

section \<open>The Fargate deployment composer (src/createFargateDeployment.ts)\<close>

text \<open>
  \<open>createFargateDeployment name options\<close> builds fourteen CloudFormation resource
  descriptions and wires references between them. The TypeScript \<open>number\<close> fields
  (ports, counts, seconds, percentages) are modelled as \<open>int\<close>, strings as \<open>string\<close>,
  an optional field \<open>f?: T\<close> as \<open>T option\<close> (\<open>None\<close> when the field is omitted), an
  object literal as a record with the fields the source writes.
\<close>

subsection \<open>The input record\<close>

text \<open>
  \<open>interface FargateDeploymentOptions\<close> (lines 31-100). \<open>IAMRolePolicy\<close> is a type of
  the template library and is not inspected by the composer: it is the type
  parameter \<open>'policy\<close>. \<open>Record<string, string>\<close> is an association list.
\<close>

record 'policy FargateDeploymentOptions =
  ServiceName :: string
  ImageUrl :: string
  ContainerPort :: int
  ContainerCpu :: "int option"
  ContainerMemory :: "int option"
  DesiredCount :: "int option"
  VpcId :: string
  PrivateSubnets :: "string list"
  PublicSubnets :: "string list"
  DomainName :: string
  ZoneName :: string
  Stage :: string
  CertificateArn :: string
  Policies :: "'policy list option"
  Environment :: "(string \<times> string) list option"
  HealthCheckUrl :: "string option"
  EnableContainerInsights :: "bool option"

subsection \<open>JavaScript truthiness\<close>

text \<open>
  The source tests \<open>options.EnableContainerInsights ? \<dots> : \<dots>\<close> and writes the
  defaults as \<open>options.HealthCheckUrl || '/'\<close> and \<open>options.DesiredCount || 2\<close>.
  \<open>a || b\<close> is \<open>a\<close> when \<open>a\<close> is truthy and \<open>b\<close> otherwise; \<open>undefined\<close>, \<open>false\<close>,
  the empty string and the number zero are falsy. (\<open>NaN\<close>, the other falsy number, is
  not an \<open>int\<close>: the model covers the integer values of a \<open>number\<close> field.)
\<close>

definition truthy_bool :: "bool option \<Rightarrow> bool" where
  "truthy_bool x = (case x of None \<Rightarrow> False | Some b \<Rightarrow> b)"

definition or_string :: "string option \<Rightarrow> string \<Rightarrow> string" where
  "or_string x d = (case x of None \<Rightarrow> d | Some s \<Rightarrow> if s = [] then d else s)"

definition or_number :: "int option \<Rightarrow> int \<Rightarrow> int" where
  "or_number x d = (case x of None \<Rightarrow> d | Some n \<Rightarrow> if n = 0 then d else n)"

subsection \<open>Resource descriptions, references and dependency edges\<close>

text \<open>
  The resource factories, \<open>getRef\<close>, \<open>getAttribute\<close> and \<open>dependsOn\<close> are imported from
  the template library (lines 1-26); their code is not part of the repository. They
  are modelled from the collaborator contracts of the specification.
\<close>

datatype ResourceKind =
    ECSCluster
  | EC2SecurityGroup
  | EC2SecurityGroupIngress
  | ElasticLoadBalancingV2LoadBalancer
  | IAMRole
  | LogsLogGroup
  | ECSTaskDefinition
  | ElasticLoadBalancingV2TargetGroup
  | ElasticLoadBalancingV2Listener
  | ECSService
  | Route53RecordSet

text \<open>
  Modelled from the spec: the type \<open>ResourceDescription\<close> of the template library.
  A resource description "carries a logical name, a resource kind, and a property
  bag"; the dependency edges recorded for it by \<open>dependsOn\<close> are kept with it, as the
  logical names of the resources it must follow.
\<close>

record 'props ResourceDescription =
  Name :: string
  Type :: ResourceKind
  Properties :: 'props
  DependsOn :: "string list"

text \<open>
  Modelled from the spec: the references of the template library. A reference is
  "a typed pointer from one resource's property to another resource's identity
  (ref) or a named runtime attribute (attribute)"; the identity of a resource within
  a template is its logical name.
\<close>

datatype Reference = Ref string | GetAtt string string


text \<open>
  Modelled from the spec: the resource factories of the template library,
  "\<open>create<Kind>(logicalName, propertyBag) \<rightarrow> ResourceDescription\<close>, deterministic,
  pure". A new description has no dependency edge.
\<close>

definition createResource :: "ResourceKind \<Rightarrow> string \<Rightarrow> 'props \<Rightarrow> 'props ResourceDescription" where
  "createResource kind logicalName props =
     \<lparr>Name = logicalName, Type = kind, Properties = props, DependsOn = []\<rparr>"

text \<open>
  Modelled from the spec: \<open>getRef\<close> "resolves to the resource's identity" and
  \<open>getAttribute\<close> "resolves to a named runtime attribute" of the resource.
\<close>

definition getRef :: "'props ResourceDescription \<Rightarrow> Reference" where
  "getRef resource = Ref (Name resource)"

definition getAttribute :: "'props ResourceDescription \<Rightarrow> string \<Rightarrow> Reference" where
  "getAttribute resource attributeName = GetAtt (Name resource) attributeName"

text \<open>
  Modelled from the spec: \<open>dependsOn(dependent, dependency)\<close> "records an explicit
  ordering edge consulted by the renderer". The source calls it as a statement and
  drops its result (line 245), so it updates the dependent description; the model
  returns the updated description.
\<close>

definition dependsOn :: "'a ResourceDescription \<Rightarrow> 'b ResourceDescription \<Rightarrow> 'a ResourceDescription" where
  "dependsOn dependent dependency =
     dependent\<lparr>DependsOn := DependsOn dependent @ [Name dependency]\<rparr>"

subsection \<open>Property bags\<close>

text \<open>
  One record for each object literal of the source, with the fields the source
  writes. A field name used by two literals carries the name of its literal as a
  suffix. A field the source writes in one call and leaves out in another is optional.
\<close>

record ClusterSetting =
  Name_ClusterSetting :: string
  Value_ClusterSetting :: string

record ECSClusterProperties =
  ClusterSettings :: "ClusterSetting list option"

record SecurityGroupIngressRule =
  CidrIp :: string
  IpProtocol_Rule :: string

record EC2SecurityGroupProperties =
  GroupDescription :: string
  VpcId_SecurityGroup :: string
  SecurityGroupIngress :: "SecurityGroupIngressRule list option"

record EC2SecurityGroupIngressProperties =
  Description :: string
  GroupId :: Reference
  IpProtocol :: string
  SourceSecurityGroupId :: Reference

record LoadBalancerAttribute =
  Key :: string
  Value_LoadBalancerAttribute :: string

record LoadBalancerProperties =
  Scheme :: string
  LoadBalancerAttributes :: "LoadBalancerAttribute list"
  Subnets_LoadBalancer :: "string list"
  SecurityGroups_LoadBalancer :: "Reference list"

record LogGroupProperties =
  LogGroupName :: string

record TargetGroupProperties =
  HealthCheckIntervalSeconds :: int
  HealthCheckPath :: string
  HealthCheckProtocol :: string
  HealthCheckTimeoutSeconds :: int
  HealthyThresholdCount :: int
  Port_TargetGroup :: int
  Protocol_TargetGroup :: string
  TargetType :: string
  UnhealthyThresholdCount :: int
  VpcId_TargetGroup :: string

record ListenerAction =
  TargetGroupArn_Action :: Reference
  Type_Action :: string

record ListenerCertificate =
  CertificateArn_Certificate :: string

record ListenerProperties =
  DefaultActions :: "ListenerAction list"
  LoadBalancerArn :: Reference
  Port_Listener :: int
  Protocol_Listener :: string
  Certificates :: "ListenerCertificate list"

record DeploymentConfigurationProperties =
  MaximumPercent :: int
  MinimumHealthyPercent :: int

record AwsvpcConfigurationProperties =
  SecurityGroups_Awsvpc :: "Reference list"
  Subnets_Awsvpc :: "string list"

record NetworkConfigurationProperties =
  AwsvpcConfiguration :: AwsvpcConfigurationProperties

record ServiceLoadBalancer =
  ContainerName :: string
  ContainerPort_LoadBalancer :: int
  TargetGroupArn_LoadBalancer :: Reference

record ServiceProperties =
  Cluster :: Reference
  LaunchType :: string
  DeploymentConfiguration :: DeploymentConfigurationProperties
  DesiredCount_Service :: int
  NetworkConfiguration :: NetworkConfigurationProperties
  TaskDefinition :: Reference
  LoadBalancers :: "ServiceLoadBalancer list"

record AliasTargetProperties =
  HostedZoneId :: Reference
  DNSName :: Reference
  EvaluateTargetHealth :: bool

record RecordSetProperties =
  Name_RecordSet :: string
  Type_RecordSet :: string
  HostedZoneName :: string
  AliasTarget :: AliasTargetProperties

text \<open>The arguments the source hands to the two role composers and the task composer.\<close>

record 'policy TaskRoleOptions =
  Policies_TaskRole :: "'policy list option"

record 'policy TaskDefinitionOptions =
  options_spread :: "'policy FargateDeploymentOptions"
  ExecutionRoleArn :: Reference
  TaskRoleArn :: Reference
  LogGroup :: Reference

subsection \<open>The factories the composer calls\<close>

definition createECSCluster :: "string \<Rightarrow> ECSClusterProperties \<Rightarrow> ECSClusterProperties ResourceDescription" where
  "createECSCluster = createResource ECSCluster"

definition createEC2SecurityGroup :: "string \<Rightarrow> EC2SecurityGroupProperties \<Rightarrow> EC2SecurityGroupProperties ResourceDescription" where
  "createEC2SecurityGroup = createResource EC2SecurityGroup"

definition createEC2SecurityGroupIngress :: "string \<Rightarrow> EC2SecurityGroupIngressProperties \<Rightarrow> EC2SecurityGroupIngressProperties ResourceDescription" where
  "createEC2SecurityGroupIngress = createResource EC2SecurityGroupIngress"

definition createElasticLoadBalancingV2LoadBalancer :: "string \<Rightarrow> LoadBalancerProperties \<Rightarrow> LoadBalancerProperties ResourceDescription" where
  "createElasticLoadBalancingV2LoadBalancer = createResource ElasticLoadBalancingV2LoadBalancer"

definition createLogsLogGroup :: "string \<Rightarrow> LogGroupProperties \<Rightarrow> LogGroupProperties ResourceDescription" where
  "createLogsLogGroup = createResource LogsLogGroup"

definition createElasticLoadBalancingV2TargetGroup :: "string \<Rightarrow> TargetGroupProperties \<Rightarrow> TargetGroupProperties ResourceDescription" where
  "createElasticLoadBalancingV2TargetGroup = createResource ElasticLoadBalancingV2TargetGroup"

definition createElasticLoadBalancingV2Listener :: "string \<Rightarrow> ListenerProperties \<Rightarrow> ListenerProperties ResourceDescription" where
  "createElasticLoadBalancingV2Listener = createResource ElasticLoadBalancingV2Listener"

definition createECSService :: "string \<Rightarrow> ServiceProperties \<Rightarrow> ServiceProperties ResourceDescription" where
  "createECSService = createResource ECSService"

definition createRoute53RecordSet :: "string \<Rightarrow> RecordSetProperties \<Rightarrow> RecordSetProperties ResourceDescription" where
  "createRoute53RecordSet = createResource Route53RecordSet"

text \<open>
  Modelled from the spec: \<open>createFargateExecutionRole\<close>, \<open>createECSTaskRole\<close> and
  \<open>createFargateTaskDefinition\<close> are files of this repository that are not under
  src/. The specification says that the two roles and the task definition are
  "delegated to external collaborator composers", that the task role "receives the
  caller-supplied access-policy list", that the task composer is "given the full
  deployment options plus resolved execution-role ARN, task-role ARN, and log-group
  reference", and that the logical name of each of the fourteen roles is the prefix
  followed by the role suffix. It does not describe the property bags they build:
  each description below has the logical name and the kind of its role (the result
  types of lines 109-111) and keeps the arguments the composer was given.
\<close>

definition createFargateExecutionRole :: "string \<Rightarrow> unit ResourceDescription" where
  "createFargateExecutionRole logicalName = createResource IAMRole logicalName ()"

definition createECSTaskRole :: "string \<Rightarrow> 'policy TaskRoleOptions \<Rightarrow> 'policy TaskRoleOptions ResourceDescription" where
  "createECSTaskRole = createResource IAMRole"

definition createFargateTaskDefinition :: "string \<Rightarrow> 'policy TaskDefinitionOptions \<Rightarrow> 'policy TaskDefinitionOptions ResourceDescription" where
  "createFargateTaskDefinition = createResource ECSTaskDefinition"

subsection \<open>The composer\<close>

text \<open>\<open>interface FargateDeploymentResources\<close> (lines 102-117).\<close>

record 'policy FargateDeploymentResources =
  cluster :: "ECSClusterProperties ResourceDescription"
  containerSecurityGroup :: "EC2SecurityGroupProperties ResourceDescription"
  loadBalancerSecurityGroup :: "EC2SecurityGroupProperties ResourceDescription"
  albIngress :: "EC2SecurityGroupIngressProperties ResourceDescription"
  selfIngress :: "EC2SecurityGroupIngressProperties ResourceDescription"
  loadBalancer :: "LoadBalancerProperties ResourceDescription"
  executionRole :: "unit ResourceDescription"
  taskRole :: "'policy TaskRoleOptions ResourceDescription"
  task :: "'policy TaskDefinitionOptions ResourceDescription"
  targetGroup :: "TargetGroupProperties ResourceDescription"
  service :: "ServiceProperties ResourceDescription"
  listener :: "ListenerProperties ResourceDescription"
  logGroup :: "LogGroupProperties ResourceDescription"
  recordset :: "RecordSetProperties ResourceDescription"

text \<open>
  \<open>createFargateDeployment\<close> (lines 119-274), one binding for each \<open>const\<close> of the
  source, in the order of the source. The template literal \<open>`${name}Cluster`\<close> is the
  concatenation \<open>name @ ''Cluster''\<close>. The statement \<open>dependsOn(service, listener)\<close>
  updates the service description before it is returned: from that binding on,
  \<open>service\<close> is the updated description.
\<close>

definition createFargateDeployment :: "string \<Rightarrow> 'policy FargateDeploymentOptions \<Rightarrow> 'policy FargateDeploymentResources" where
  "createFargateDeployment name options =
    (let
      cluster = createECSCluster (name @ ''Cluster'')
        (if truthy_bool (EnableContainerInsights options)
         then \<lparr>ClusterSettings = Some
                 [\<lparr>Name_ClusterSetting = ''containerInsights'',
                   Value_ClusterSetting = ''enabled''\<rparr>]\<rparr>
         else \<lparr>ClusterSettings = None\<rparr>);
      containerSecurityGroup = createEC2SecurityGroup (name @ ''ContainerSecurityGroup'')
        \<lparr>GroupDescription = ''Access to the Fargate containers'',
         VpcId_SecurityGroup = VpcId options,
         SecurityGroupIngress = None\<rparr>;
      loadBalancerSecurityGroup = createEC2SecurityGroup (name @ ''LoadBalancerSecurityGroup'')
        \<lparr>GroupDescription = ''Access to the public facing load balancer'',
         VpcId_SecurityGroup = VpcId options,
         SecurityGroupIngress = Some [\<lparr>CidrIp = ''0.0.0.0/0'', IpProtocol_Rule = ''-1''\<rparr>]\<rparr>;
      albIngress = createEC2SecurityGroupIngress (name @ ''ALBIngress'')
        \<lparr>Description = ''Ingress from the public ALB'',
         GroupId = getRef containerSecurityGroup,
         IpProtocol = ''-1'',
         SourceSecurityGroupId = getRef loadBalancerSecurityGroup\<rparr>;
      selfIngress = createEC2SecurityGroupIngress (name @ ''SelfIngress'')
        \<lparr>Description = ''Ingress from other containers in the same security group'',
         GroupId = getRef containerSecurityGroup,
         IpProtocol = ''-1'',
         SourceSecurityGroupId = getRef containerSecurityGroup\<rparr>;
      loadBalancer = createElasticLoadBalancingV2LoadBalancer (name @ ''LoadBalancer'')
        \<lparr>Scheme = ''internet-facing'',
         LoadBalancerAttributes =
           [\<lparr>Key = ''idle_timeout.timeout_seconds'', Value_LoadBalancerAttribute = ''30''\<rparr>],
         Subnets_LoadBalancer = PublicSubnets options,
         SecurityGroups_LoadBalancer = [getRef loadBalancerSecurityGroup]\<rparr>;
      executionRole = createFargateExecutionRole (name @ ''ExecutionRole'');
      taskRole = createECSTaskRole (name @ ''TaskRole'')
        \<lparr>Policies_TaskRole = Policies options\<rparr>;
      logGroup = createLogsLogGroup (name @ ''LogGroup'')
        \<lparr>LogGroupName = name\<rparr>;
      task = createFargateTaskDefinition (name @ ''Task'')
        \<lparr>options_spread = options,
         ExecutionRoleArn = getAttribute executionRole ''Arn'',
         TaskRoleArn = getAttribute taskRole ''Arn'',
         LogGroup = getRef logGroup\<rparr>;
      targetGroup = createElasticLoadBalancingV2TargetGroup (name @ ''TargetGroup'')
        \<lparr>HealthCheckIntervalSeconds = 10,
         HealthCheckPath = or_string (HealthCheckUrl options) ''/'',
         HealthCheckProtocol = ''HTTP'',
         HealthCheckTimeoutSeconds = 5,
         HealthyThresholdCount = 2,
         Port_TargetGroup = ContainerPort options,
         Protocol_TargetGroup = ''HTTP'',
         TargetType = ''ip'',
         UnhealthyThresholdCount = 2,
         VpcId_TargetGroup = VpcId options\<rparr>;
      listener = createElasticLoadBalancingV2Listener (name @ ''Listener'')
        \<lparr>DefaultActions =
           [\<lparr>TargetGroupArn_Action = getRef targetGroup, Type_Action = ''forward''\<rparr>],
         LoadBalancerArn = getRef loadBalancer,
         Port_Listener = 443,
         Protocol_Listener = ''HTTPS'',
         Certificates = [\<lparr>CertificateArn_Certificate = CertificateArn options\<rparr>]\<rparr>;
      service = createECSService (name @ ''Service'')
        \<lparr>Cluster = getRef cluster,
         LaunchType = ''FARGATE'',
         DeploymentConfiguration = \<lparr>MaximumPercent = 200, MinimumHealthyPercent = 75\<rparr>,
         DesiredCount_Service = or_number (DesiredCount options) 2,
         NetworkConfiguration =
           \<lparr>AwsvpcConfiguration =
              \<lparr>SecurityGroups_Awsvpc = [getRef containerSecurityGroup],
               Subnets_Awsvpc = PrivateSubnets options\<rparr>\<rparr>,
         TaskDefinition = getRef task,
         LoadBalancers =
           [\<lparr>ContainerName = ServiceName options,
             ContainerPort_LoadBalancer = ContainerPort options,
             TargetGroupArn_LoadBalancer = getRef targetGroup\<rparr>]\<rparr>;
      service = dependsOn service listener;
      recordset = createRoute53RecordSet (name @ ''RecordSet'')
        \<lparr>Name_RecordSet = DomainName options,
         Type_RecordSet = ''A'',
         HostedZoneName = ZoneName options,
         AliasTarget =
           \<lparr>HostedZoneId = getAttribute loadBalancer ''CanonicalHostedZoneID'',
            DNSName = getAttribute loadBalancer ''DNSName'',
            EvaluateTargetHealth = True\<rparr>\<rparr>
    in
      \<lparr>cluster = cluster,
       containerSecurityGroup = containerSecurityGroup,
       loadBalancerSecurityGroup = loadBalancerSecurityGroup,
       albIngress = albIngress,
       selfIngress = selfIngress,
       loadBalancer = loadBalancer,
       executionRole = executionRole,
       taskRole = taskRole,
       task = task,
       targetGroup = targetGroup,
       service = service,
       listener = listener,
       logGroup = logGroup,
       recordset = recordset\<rparr>)"

subsection \<open>Observations on the result\<close>

text \<open>
  The fourteen role suffixes and the logical names of the fourteen returned
  descriptions, both in the order in which the source constructs the resources.
\<close>

definition role_suffixes :: "string list" where
  "role_suffixes =
     [''Cluster'', ''ContainerSecurityGroup'', ''LoadBalancerSecurityGroup'', ''ALBIngress'',
      ''SelfIngress'', ''LoadBalancer'', ''ExecutionRole'', ''TaskRole'', ''LogGroup'', ''Task'',
      ''TargetGroup'', ''Listener'', ''Service'', ''RecordSet'']"

definition logical_names :: "'policy FargateDeploymentResources \<Rightarrow> string list" where
  "logical_names r =
     [Name (cluster r), Name (containerSecurityGroup r), Name (loadBalancerSecurityGroup r),
      Name (albIngress r), Name (selfIngress r), Name (loadBalancer r), Name (executionRole r),
      Name (taskRole r), Name (logGroup r), Name (task r), Name (targetGroup r),
      Name (listener r), Name (service r), Name (recordset r)]"

text \<open>Two logical names are two prefixes followed by one and the same role suffix.\<close>

definition same_role :: "string \<Rightarrow> string \<Rightarrow> string \<Rightarrow> string \<Rightarrow> bool" where
  "same_role prefix prefix' a b =
     (\<exists>suffix \<in> set role_suffixes. a = prefix @ suffix \<and> b = prefix' @ suffix)"

text \<open>
  The settings entries of a cluster description: those of its \<open>ClusterSettings\<close>
  property, none when the property bag leaves the property out.
\<close>

definition cluster_settings :: "ECSClusterProperties ResourceDescription \<Rightarrow> ClusterSetting list" where
  "cluster_settings c =
     (case ClusterSettings (Properties c) of None \<Rightarrow> [] | Some settings \<Rightarrow> settings)"

text \<open>
  The dependency edges recorded in a result: a pair (dependent, dependency) of logical
  names for every entry of \<open>DependsOn\<close> of each of the fourteen descriptions.
\<close>

definition edges :: "'props ResourceDescription \<Rightarrow> (string \<times> string) list" where
  "edges resource = map (\<lambda>dependency. (Name resource, dependency)) (DependsOn resource)"

definition dependency_edges :: "'policy FargateDeploymentResources \<Rightarrow> (string \<times> string) list" where
  "dependency_edges r =
     edges (cluster r) @ edges (containerSecurityGroup r) @ edges (loadBalancerSecurityGroup r) @
     edges (albIngress r) @ edges (selfIngress r) @ edges (loadBalancer r) @
     edges (executionRole r) @ edges (taskRole r) @ edges (logGroup r) @ edges (task r) @
     edges (targetGroup r) @ edges (listener r) @ edges (service r) @ edges (recordset r)"











subsection \<open>Concrete inputs\<close>

text \<open>The options of the end-to-end scenario of the specification, and variants of it.\<close>

definition example_options :: "unit FargateDeploymentOptions" where
  "example_options =
     \<lparr>ServiceName = ''api'', ImageUrl = ''example/api:latest'', ContainerPort = 8080,
      ContainerCpu = None, ContainerMemory = None, DesiredCount = None,
      VpcId = ''vpc-1'', PrivateSubnets = [''subnet-a''], PublicSubnets = [''subnet-b''],
      DomainName = ''api.example.com'', ZoneName = ''example.com.'', Stage = ''prod'',
      CertificateArn = ''arn:cert:1'', Policies = None, Environment = None,
      HealthCheckUrl = None, EnableContainerInsights = None\<rparr>"

definition zero_count_options :: "unit FargateDeploymentOptions" where
  "zero_count_options = example_options\<lparr>DesiredCount := Some 0\<rparr>"

definition empty_path_options :: "unit FargateDeploymentOptions" where
  "empty_path_options = example_options\<lparr>HealthCheckUrl := Some ''''\<rparr>"

definition health_path_options :: "unit FargateDeploymentOptions" where
  "health_path_options = example_options\<lparr>HealthCheckUrl := Some ''/health''\<rparr>"

definition insights_options :: "unit FargateDeploymentOptions" where
  "insights_options = example_options\<lparr>EnableContainerInsights := Some True\<rparr>"

definition no_insights_options :: "unit FargateDeploymentOptions" where
  "no_insights_options = example_options\<lparr>EnableContainerInsights := Some False\<rparr>"


section \<open>Unfolding the composer\<close>

lemmas factory_defs =
  createResource_def createECSCluster_def createEC2SecurityGroup_def
  createEC2SecurityGroupIngress_def createElasticLoadBalancingV2LoadBalancer_def
  createLogsLogGroup_def createElasticLoadBalancingV2TargetGroup_def
  createElasticLoadBalancingV2Listener_def createECSService_def
  createRoute53RecordSet_def createFargateExecutionRole_def createECSTaskRole_def
  createFargateTaskDefinition_def getRef_def getAttribute_def dependsOn_def

lemmas composer_defs = createFargateDeployment_def Let_def factory_defs

text \<open>Each returned description, written out.\<close>

lemma cluster_description:
  "cluster (createFargateDeployment name options) =
     \<lparr>Name = name @ ''Cluster'', Type = ECSCluster,
      Properties =
        (if truthy_bool (EnableContainerInsights options)
         then \<lparr>ClusterSettings = Some
                 [\<lparr>Name_ClusterSetting = ''containerInsights'',
                   Value_ClusterSetting = ''enabled''\<rparr>]\<rparr>
         else \<lparr>ClusterSettings = None\<rparr>),
      DependsOn = []\<rparr>"
  by (simp add: composer_defs)

lemma logGroup_description:
  "logGroup (createFargateDeployment name options) =
     \<lparr>Name = name @ ''LogGroup'', Type = LogsLogGroup,
      Properties = \<lparr>LogGroupName = name\<rparr>, DependsOn = []\<rparr>"
  by (simp add: composer_defs)

lemma targetGroup_description:
  "targetGroup (createFargateDeployment name options) =
     \<lparr>Name = name @ ''TargetGroup'', Type = ElasticLoadBalancingV2TargetGroup,
      Properties =
        \<lparr>HealthCheckIntervalSeconds = 10,
         HealthCheckPath = or_string (HealthCheckUrl options) ''/'',
         HealthCheckProtocol = ''HTTP'',
         HealthCheckTimeoutSeconds = 5,
         HealthyThresholdCount = 2,
         Port_TargetGroup = ContainerPort options,
         Protocol_TargetGroup = ''HTTP'',
         TargetType = ''ip'',
         UnhealthyThresholdCount = 2,
         VpcId_TargetGroup = VpcId options\<rparr>,
      DependsOn = []\<rparr>"
  by (simp add: composer_defs)

lemma listener_description:
  "listener (createFargateDeployment name options) =
     \<lparr>Name = name @ ''Listener'', Type = ElasticLoadBalancingV2Listener,
      Properties =
        \<lparr>DefaultActions =
           [\<lparr>TargetGroupArn_Action = Ref (name @ ''TargetGroup''), Type_Action = ''forward''\<rparr>],
         LoadBalancerArn = Ref (name @ ''LoadBalancer''),
         Port_Listener = 443,
         Protocol_Listener = ''HTTPS'',
         Certificates = [\<lparr>CertificateArn_Certificate = CertificateArn options\<rparr>]\<rparr>,
      DependsOn = []\<rparr>"
  by (simp add: composer_defs)

lemma service_description:
  "service (createFargateDeployment name options) =
     \<lparr>Name = name @ ''Service'', Type = ECSService,
      Properties =
        \<lparr>Cluster = Ref (name @ ''Cluster''),
         LaunchType = ''FARGATE'',
         DeploymentConfiguration = \<lparr>MaximumPercent = 200, MinimumHealthyPercent = 75\<rparr>,
         DesiredCount_Service = or_number (DesiredCount options) 2,
         NetworkConfiguration =
           \<lparr>AwsvpcConfiguration =
              \<lparr>SecurityGroups_Awsvpc = [Ref (name @ ''ContainerSecurityGroup'')],
               Subnets_Awsvpc = PrivateSubnets options\<rparr>\<rparr>,
         TaskDefinition = Ref (name @ ''Task''),
         LoadBalancers =
           [\<lparr>ContainerName = ServiceName options,
             ContainerPort_LoadBalancer = ContainerPort options,
             TargetGroupArn_LoadBalancer = Ref (name @ ''TargetGroup'')\<rparr>]\<rparr>,
      DependsOn = [name @ ''Listener'']\<rparr>"
  by (simp add: composer_defs)



lemma containerSecurityGroup_description:
  "containerSecurityGroup (createFargateDeployment name options) =
     \<lparr>Name = name @ ''ContainerSecurityGroup'', Type = EC2SecurityGroup,
      Properties =
        \<lparr>GroupDescription = ''Access to the Fargate containers'',
         VpcId_SecurityGroup = VpcId options,
         SecurityGroupIngress = None\<rparr>,
      DependsOn = []\<rparr>"
  by (simp add: composer_defs)

lemma loadBalancerSecurityGroup_description:
  "loadBalancerSecurityGroup (createFargateDeployment name options) =
     \<lparr>Name = name @ ''LoadBalancerSecurityGroup'', Type = EC2SecurityGroup,
      Properties =
        \<lparr>GroupDescription = ''Access to the public facing load balancer'',
         VpcId_SecurityGroup = VpcId options,
         SecurityGroupIngress = Some [\<lparr>CidrIp = ''0.0.0.0/0'', IpProtocol_Rule = ''-1''\<rparr>]\<rparr>,
      DependsOn = []\<rparr>"
  by (simp add: composer_defs)

lemma task_description:
  "task (createFargateDeployment name options) =
     \<lparr>Name = name @ ''Task'', Type = ECSTaskDefinition,
      Properties =
        \<lparr>options_spread = options,
         ExecutionRoleArn = GetAtt (name @ ''ExecutionRole'') ''Arn'',
         TaskRoleArn = GetAtt (name @ ''TaskRole'') ''Arn'',
         LogGroup = Ref (name @ ''LogGroup'')\<rparr>,
      DependsOn = []\<rparr>"
  by (simp add: composer_defs)

lemma logical_names_composer:
  "logical_names (createFargateDeployment name options) =
     map (\<lambda>suffix. name @ suffix) role_suffixes"
  by (simp add: logical_names_def role_suffixes_def composer_defs)

lemma dependency_edges_composer:
  "dependency_edges (createFargateDeployment name options) =
     [(name @ ''Service'', name @ ''Listener'')]"
  by (simp add: dependency_edges_def edges_def composer_defs)


section \<open>Logical names\<close>

text \<open>
  Claim C1. For every name prefix and options record, the logical names of the
  fourteen returned descriptions are the prefix followed by the fourteen role
  suffixes Cluster, ContainerSecurityGroup, LoadBalancerSecurityGroup, ALBIngress,
  SelfIngress, LoadBalancer, ExecutionRole, TaskRole, LogGroup, Task, TargetGroup,
  Listener, Service, RecordSet. For two calls with distinct prefixes and the same
  options, the two names of each role differ, and they are the two prefixes followed
  by the same role suffix. (The names of the execution role, the task role and the
  task definition are given by the composers modelled from the specification.)
\<close>

theorem logical_names_prefix_role_suffix:
  "logical_names (createFargateDeployment name options) =
     map (\<lambda>suffix. name @ suffix) role_suffixes \<and>
   (name \<noteq> name' \<longrightarrow>
      list_all2 (\<lambda>a b. a \<noteq> b \<and> same_role name name' a b)
        (logical_names (createFargateDeployment name options))
        (logical_names (createFargateDeployment name' options)))"
proof -
  have "list_all2 (\<lambda>a b. a \<noteq> b \<and> same_role name name' a b)
          (map (\<lambda>suffix. name @ suffix) role_suffixes)
          (map (\<lambda>suffix. name' @ suffix) role_suffixes)"
    if "name \<noteq> name'"
    using that by (auto simp add: list_all2_map1 list_all2_map2 list_all2_same same_role_def)
  then show ?thesis by (simp add: logical_names_composer)
qed

theorem logical_names_prefix_role_suffix_witness:
  "''Api'' \<noteq> ''Web'' \<and>
   logical_names (createFargateDeployment ''Api'' example_options) =
     [''ApiCluster'', ''ApiContainerSecurityGroup'', ''ApiLoadBalancerSecurityGroup'',
      ''ApiALBIngress'', ''ApiSelfIngress'', ''ApiLoadBalancer'', ''ApiExecutionRole'',
      ''ApiTaskRole'', ''ApiLogGroup'', ''ApiTask'', ''ApiTargetGroup'', ''ApiListener'',
      ''ApiService'', ''ApiRecordSet''] \<and>
   list_all2 (\<lambda>a b. a \<noteq> b \<and> same_role ''Api'' ''Web'' a b)
     (logical_names (createFargateDeployment ''Api'' example_options))
     (logical_names (createFargateDeployment ''Web'' example_options))"
proof -
  note names = logical_names_prefix_role_suffix [of "''Api''" example_options "''Web''"]
  have distinct_prefixes: "''Api'' \<noteq> ''Web''" by simp
  have names_api: "logical_names (createFargateDeployment ''Api'' example_options) =
     [''ApiCluster'', ''ApiContainerSecurityGroup'', ''ApiLoadBalancerSecurityGroup'',
      ''ApiALBIngress'', ''ApiSelfIngress'', ''ApiLoadBalancer'', ''ApiExecutionRole'',
      ''ApiTaskRole'', ''ApiLogGroup'', ''ApiTask'', ''ApiTargetGroup'', ''ApiListener'',
      ''ApiService'', ''ApiRecordSet'']"
    using names by (simp add: role_suffixes_def)
  have "list_all2 (\<lambda>a b. a \<noteq> b \<and> same_role ''Api'' ''Web'' a b)
     (logical_names (createFargateDeployment ''Api'' example_options))
     (logical_names (createFargateDeployment ''Web'' example_options))"
    using names distinct_prefixes by blast
  with distinct_prefixes names_api show ?thesis by blast
qed

section \<open>The service\<close>

text \<open>
  The properties of the service for every options record. The desired count is the
  supplied one when it is supplied and is not zero, and 2 otherwise.
\<close>

lemma service_properties:
  "LaunchType (Properties (service (createFargateDeployment name options))) = ''FARGATE''"
  "DeploymentConfiguration (Properties (service (createFargateDeployment name options))) =
     \<lparr>MaximumPercent = 200, MinimumHealthyPercent = 75\<rparr>"
  "DesiredCount_Service (Properties (service (createFargateDeployment name options))) =
     (case DesiredCount options of None \<Rightarrow> 2 | Some n \<Rightarrow> if n = 0 then 2 else n)"
  "NetworkConfiguration (Properties (service (createFargateDeployment name options))) =
     \<lparr>AwsvpcConfiguration =
        \<lparr>SecurityGroups_Awsvpc =
           [getRef (containerSecurityGroup (createFargateDeployment name options))],
         Subnets_Awsvpc = PrivateSubnets options\<rparr>\<rparr>"
  "TaskDefinition (Properties (service (createFargateDeployment name options))) =
     getRef (task (createFargateDeployment name options))"
  by (simp_all add: service_description containerSecurityGroup_description task_description
      getRef_def or_number_def)

text \<open>
  Claim C2, at the options of the end-to-end scenario with \<open>DesiredCount: 0\<close>: the
  caller supplies a desired count of zero, and the returned service description has
  the desired count 2.
\<close>

theorem service_desired_count_zero_becomes_two:
  "DesiredCount zero_count_options = Some 0 \<and>
   DesiredCount_Service
     (Properties (service (createFargateDeployment ''Api'' zero_count_options))) = 2"
proof -
  have supplied: "DesiredCount zero_count_options = Some 0"
    by (simp add: zero_count_options_def example_options_def)
  have "DesiredCount_Service
     (Properties (service (createFargateDeployment ''Api'' zero_count_options))) =
     or_number (DesiredCount zero_count_options) 2"
    by (simp add: service_description)
  also have "\<dots> = or_number (Some 0) 2"
    by (simp only: supplied)
  also have "\<dots> = 2"
    by (simp add: or_number_def)
  finally show ?thesis
    using supplied by simp
qed

text \<open>
  Claim C10. For every options record, the list of load-balancer registrations of the
  returned service description has exactly one entry: its container name is the
  \<open>ServiceName\<close> field of the options (whatever the name prefix is), its container
  port is the \<open>ContainerPort\<close> field of the options, and its target group is the
  reference to the target group of the same result.
\<close>

theorem service_load_balancer_registration:
  "LoadBalancers (Properties (service (createFargateDeployment name options))) =
     [\<lparr>ContainerName = ServiceName options,
       ContainerPort_LoadBalancer = ContainerPort options,
       TargetGroupArn_LoadBalancer =
         getRef (targetGroup (createFargateDeployment name options))\<rparr>]"
proof -
  have "getRef (targetGroup (createFargateDeployment name options)) = Ref (name @ ''TargetGroup'')"
    by (simp add: targetGroup_description getRef_def)
  moreover have "LoadBalancers (Properties (service (createFargateDeployment name options))) =
     [\<lparr>ContainerName = ServiceName options,
       ContainerPort_LoadBalancer = ContainerPort options,
       TargetGroupArn_LoadBalancer = Ref (name @ ''TargetGroup'')\<rparr>]"
    by (simp add: service_description)
  ultimately show ?thesis by simp
qed

section \<open>The target group\<close>

text \<open>
  Claim C3, at the options of the end-to-end scenario with \<open>HealthCheckUrl: ''\<close>: the
  caller supplies the empty health-check URL, and the health-check path of the
  returned target group is \<open>/\<close>, not the supplied value.
\<close>

theorem targetGroup_empty_health_check_url:
  "HealthCheckUrl empty_path_options = Some '''' \<and>
   HealthCheckPath
     (Properties (targetGroup (createFargateDeployment ''Api'' empty_path_options))) = ''/'' \<and>
   HealthCheckPath
     (Properties (targetGroup (createFargateDeployment ''Api'' empty_path_options))) \<noteq> ''''"
  by (simp add: targetGroup_description empty_path_options_def example_options_def or_string_def)

text \<open>
  Claim C3, amended. For every options record, the returned target group description
  has HealthCheckIntervalSeconds 10, HealthCheckTimeoutSeconds 5, HealthyThresholdCount
  2, UnhealthyThresholdCount 2, HealthCheckProtocol HTTP, Protocol HTTP, TargetType ip
  and Port equal to the supplied container port; its HealthCheckPath is the supplied
  HealthCheckUrl when that is supplied and is not the empty string, and \<open>/\<close> when it is
  omitted or is the empty string.
\<close>

theorem targetGroup_health_check_policy:
  "HealthCheckIntervalSeconds (Properties (targetGroup (createFargateDeployment name options))) = 10 \<and>
   HealthCheckTimeoutSeconds (Properties (targetGroup (createFargateDeployment name options))) = 5 \<and>
   HealthyThresholdCount (Properties (targetGroup (createFargateDeployment name options))) = 2 \<and>
   UnhealthyThresholdCount (Properties (targetGroup (createFargateDeployment name options))) = 2 \<and>
   HealthCheckProtocol (Properties (targetGroup (createFargateDeployment name options))) = ''HTTP'' \<and>
   Protocol_TargetGroup (Properties (targetGroup (createFargateDeployment name options))) = ''HTTP'' \<and>
   TargetType (Properties (targetGroup (createFargateDeployment name options))) = ''ip'' \<and>
   Port_TargetGroup (Properties (targetGroup (createFargateDeployment name options))) =
     ContainerPort options \<and>
   (\<forall>url. HealthCheckUrl options = Some url \<and> url \<noteq> '''' \<longrightarrow>
      HealthCheckPath (Properties (targetGroup (createFargateDeployment name options))) = url) \<and>
   (HealthCheckUrl options = None \<or> HealthCheckUrl options = Some '''' \<longrightarrow>
      HealthCheckPath (Properties (targetGroup (createFargateDeployment name options))) = ''/'')"
proof -
  let ?properties = "Properties (targetGroup (createFargateDeployment name options))"
  have fixed:
    "HealthCheckIntervalSeconds ?properties = 10 \<and> HealthCheckTimeoutSeconds ?properties = 5 \<and>
     HealthyThresholdCount ?properties = 2 \<and> UnhealthyThresholdCount ?properties = 2 \<and>
     HealthCheckProtocol ?properties = ''HTTP'' \<and> Protocol_TargetGroup ?properties = ''HTTP'' \<and>
     TargetType ?properties = ''ip'' \<and> Port_TargetGroup ?properties = ContainerPort options"
    by (simp add: targetGroup_description)
  have path: "HealthCheckPath ?properties = or_string (HealthCheckUrl options) ''/''"
    by (simp add: targetGroup_description)
  have supplied: "HealthCheckPath ?properties = url"
    if "HealthCheckUrl options = Some url \<and> url \<noteq> ''''" for url
    using that path by (simp add: or_string_def)
  have default: "HealthCheckPath ?properties = ''/''"
    if "HealthCheckUrl options = None \<or> HealthCheckUrl options = Some ''''"
    using that path by (auto simp add: or_string_def)
  from fixed supplied default show ?thesis by blast
qed

theorem targetGroup_health_check_policy_witness:
  "HealthCheckUrl health_path_options = Some ''/health'' \<and> ''/health'' \<noteq> '''' \<and>
   HealthCheckPath
     (Properties (targetGroup (createFargateDeployment ''Api'' health_path_options))) = ''/health'' \<and>
   HealthCheckUrl example_options = None \<and>
   HealthCheckPath
     (Properties (targetGroup (createFargateDeployment ''Api'' example_options))) = ''/'' \<and>
   Port_TargetGroup
     (Properties (targetGroup (createFargateDeployment ''Api'' example_options))) = 8080"
proof -
  have supplied: "HealthCheckUrl health_path_options = Some ''/health''"
    by (simp add: health_path_options_def example_options_def)
  have omitted: "HealthCheckUrl example_options = None"
    by (simp add: example_options_def)
  have port: "ContainerPort example_options = 8080"
    by (simp add: example_options_def)
  from supplied targetGroup_health_check_policy [of "''Api''" health_path_options]
  have path_supplied: "HealthCheckPath
     (Properties (targetGroup (createFargateDeployment ''Api'' health_path_options))) = ''/health''"
    by simp
  from omitted port targetGroup_health_check_policy [of "''Api''" example_options]
  have "HealthCheckPath
     (Properties (targetGroup (createFargateDeployment ''Api'' example_options))) = ''/'' \<and>
   Port_TargetGroup
     (Properties (targetGroup (createFargateDeployment ''Api'' example_options))) = 8080"
    by simp
  with supplied omitted path_supplied show ?thesis by simp
qed

text \<open>
  Claim C9. For every options record, the VpcId property of the returned target group
  description is the VpcId field of the options, and so is the VpcId property of each
  of the two security groups.
\<close>

theorem targetGroup_vpc_is_supplied_vpc:
  "VpcId_TargetGroup (Properties (targetGroup (createFargateDeployment name options))) =
     VpcId options \<and>
   VpcId_SecurityGroup (Properties (containerSecurityGroup (createFargateDeployment name options))) =
     VpcId options \<and>
   VpcId_SecurityGroup (Properties (loadBalancerSecurityGroup (createFargateDeployment name options))) =
     VpcId options"
  by (simp add: targetGroup_description containerSecurityGroup_description
      loadBalancerSecurityGroup_description)

section \<open>The cluster\<close>

text \<open>
  Claim C4. For every options record with EnableContainerInsights true, the settings
  of the returned cluster description contain the entry with name containerInsights
  and value enabled (it is their only entry). For every options record with
  EnableContainerInsights false or omitted, the cluster has no settings entry: the
  source passes the empty property bag, which has no ClusterSettings property.
\<close>

theorem cluster_container_insights_settings:
  "(EnableContainerInsights options = Some True \<longrightarrow>
      \<lparr>Name_ClusterSetting = ''containerInsights'', Value_ClusterSetting = ''enabled''\<rparr>
        \<in> set (cluster_settings (cluster (createFargateDeployment name options))) \<and>
      ClusterSettings (Properties (cluster (createFargateDeployment name options))) =
        Some [\<lparr>Name_ClusterSetting = ''containerInsights'', Value_ClusterSetting = ''enabled''\<rparr>]) \<and>
   (EnableContainerInsights options = Some False \<or> EnableContainerInsights options = None \<longrightarrow>
      cluster_settings (cluster (createFargateDeployment name options)) = [] \<and>
      ClusterSettings (Properties (cluster (createFargateDeployment name options))) = None)"
proof (cases "EnableContainerInsights options")
  case None
  then have "\<not> truthy_bool (EnableContainerInsights options)"
    by (simp add: truthy_bool_def)
  then have "Properties (cluster (createFargateDeployment name options)) = \<lparr>ClusterSettings = None\<rparr>"
    by (simp add: cluster_description)
  with None show ?thesis
    by (simp add: cluster_settings_def)
next
  case (Some flag)
  show ?thesis
  proof (cases flag)
    case True
    with Some have "truthy_bool (EnableContainerInsights options)"
      by (simp add: truthy_bool_def)
    then have "Properties (cluster (createFargateDeployment name options)) =
      \<lparr>ClusterSettings = Some
         [\<lparr>Name_ClusterSetting = ''containerInsights'', Value_ClusterSetting = ''enabled''\<rparr>]\<rparr>"
      by (simp add: cluster_description)
    with Some True show ?thesis
      by (simp add: cluster_settings_def)
  next
    case False
    with Some have "\<not> truthy_bool (EnableContainerInsights options)"
      by (simp add: truthy_bool_def)
    then have "Properties (cluster (createFargateDeployment name options)) = \<lparr>ClusterSettings = None\<rparr>"
      by (simp add: cluster_description)
    with Some False show ?thesis
      by (simp add: cluster_settings_def)
  qed
qed

theorem cluster_container_insights_settings_witness:
  "EnableContainerInsights insights_options = Some True \<and>
   cluster_settings (cluster (createFargateDeployment ''Api'' insights_options)) =
     [\<lparr>Name_ClusterSetting = ''containerInsights'', Value_ClusterSetting = ''enabled''\<rparr>] \<and>
   EnableContainerInsights no_insights_options = Some False \<and>
   cluster_settings (cluster (createFargateDeployment ''Api'' no_insights_options)) = [] \<and>
   EnableContainerInsights example_options = None \<and>
   cluster_settings (cluster (createFargateDeployment ''Api'' example_options)) = []"
proof -
  have enabled: "EnableContainerInsights insights_options = Some True"
    by (simp add: insights_options_def example_options_def)
  have disabled: "EnableContainerInsights no_insights_options = Some False"
    by (simp add: no_insights_options_def example_options_def)
  have omitted: "EnableContainerInsights example_options = None"
    by (simp add: example_options_def)
  from enabled cluster_container_insights_settings [of insights_options "''Api''"]
  have settings_enabled:
    "cluster_settings (cluster (createFargateDeployment ''Api'' insights_options)) =
       [\<lparr>Name_ClusterSetting = ''containerInsights'', Value_ClusterSetting = ''enabled''\<rparr>]"
    by (simp add: cluster_settings_def)
  from disabled cluster_container_insights_settings [of no_insights_options "''Api''"]
  have settings_disabled:
    "cluster_settings (cluster (createFargateDeployment ''Api'' no_insights_options)) = []"
    by simp
  from omitted cluster_container_insights_settings [of example_options "''Api''"]
  have "cluster_settings (cluster (createFargateDeployment ''Api'' example_options)) = []"
    by simp
  with enabled disabled omitted settings_enabled settings_disabled show ?thesis by simp
qed

section \<open>The log group\<close>

text \<open>
  Claim C5, at the prefix Api and the options of the end-to-end scenario: the logical
  name of the returned log group description is ApiLogGroup and its LogGroupName
  property is Api, so the two are not equal.
\<close>

theorem logGroup_logical_name_is_not_LogGroupName:
  "Name (logGroup (createFargateDeployment ''Api'' example_options)) = ''ApiLogGroup'' \<and>
   LogGroupName (Properties (logGroup (createFargateDeployment ''Api'' example_options))) = ''Api'' \<and>
   Name (logGroup (createFargateDeployment ''Api'' example_options)) \<noteq>
     LogGroupName (Properties (logGroup (createFargateDeployment ''Api'' example_options)))"
  by (simp add: logGroup_description)

text \<open>
  Claim C5, amended. For every name prefix and options record, the LogGroupName
  property of the returned log group description is the name prefix itself (the
  un-prefixed deployment name), its logical name is the prefix followed by LogGroup,
  and the logical name is never equal to the LogGroupName property.
\<close>

theorem logGroup_LogGroupName_is_prefix:
  "LogGroupName (Properties (logGroup (createFargateDeployment name options))) = name \<and>
   Name (logGroup (createFargateDeployment name options)) = name @ ''LogGroup'' \<and>
   Name (logGroup (createFargateDeployment name options)) \<noteq>
     LogGroupName (Properties (logGroup (createFargateDeployment name options)))"
proof -
  have property: "LogGroupName (Properties (logGroup (createFargateDeployment name options))) = name"
    by (simp add: logGroup_description)
  have logical: "Name (logGroup (createFargateDeployment name options)) = name @ ''LogGroup''"
    by (simp add: logGroup_description)
  have "name @ ''LogGroup'' \<noteq> name"
    by simp
  with property logical show ?thesis
    by simp
qed

section \<open>The dependency edge\<close>

text \<open>
  Claim C6. For every name prefix and options record, the result records exactly one
  dependency edge, and it makes the service of the result depend on the listener of
  the same result. The listener of a call with another prefix is not the dependency
  of any edge.
\<close>

theorem service_depends_on_listener_only:
  "dependency_edges (createFargateDeployment name options) =
     [(Name (service (createFargateDeployment name options)),
       Name (listener (createFargateDeployment name options)))] \<and>
   DependsOn (service (createFargateDeployment name options)) =
     [Name (listener (createFargateDeployment name options))] \<and>
   (name \<noteq> name' \<longrightarrow>
      Name (listener (createFargateDeployment name' options'))
        \<notin> snd ` set (dependency_edges (createFargateDeployment name options)))"
proof -
  have service_name: "Name (service (createFargateDeployment name options)) = name @ ''Service''"
    by (simp add: service_description)
  have listener_name: "Name (listener (createFargateDeployment name options)) = name @ ''Listener''"
    by (simp add: listener_description)
  have other_listener_name:
    "Name (listener (createFargateDeployment name' options')) = name' @ ''Listener''"
    by (simp add: listener_description)
  have one_edge: "dependency_edges (createFargateDeployment name options) =
     [(Name (service (createFargateDeployment name options)),
       Name (listener (createFargateDeployment name options)))]"
    by (simp add: dependency_edges_composer service_name listener_name)
  have on_service: "DependsOn (service (createFargateDeployment name options)) =
     [Name (listener (createFargateDeployment name options))]"
    by (simp add: service_description listener_name)
  have other_call: "Name (listener (createFargateDeployment name' options'))
      \<notin> snd ` set (dependency_edges (createFargateDeployment name options))"
    if "name \<noteq> name'"
    using that by (simp add: dependency_edges_composer other_listener_name)
  from one_edge on_service other_call show ?thesis by blast
qed

theorem service_depends_on_listener_only_witness:
  "''Api'' \<noteq> ''Web'' \<and>
   dependency_edges (createFargateDeployment ''Api'' example_options) =
     [(''ApiService'', ''ApiListener'')] \<and>
   Name (listener (createFargateDeployment ''Web'' example_options))
     \<notin> snd ` set (dependency_edges (createFargateDeployment ''Api'' example_options))"
proof -
  note edge = service_depends_on_listener_only
    [of "''Api''" example_options "''Web''" example_options]
  have distinct_prefixes: "''Api'' \<noteq> ''Web''" by simp
  have "dependency_edges (createFargateDeployment ''Api'' example_options) =
     [(''ApiService'', ''ApiListener'')]"
    using edge by (simp add: service_description listener_description)
  moreover have "Name (listener (createFargateDeployment ''Web'' example_options))
     \<notin> snd ` set (dependency_edges (createFargateDeployment ''Api'' example_options))"
    using edge distinct_prefixes by blast
  ultimately show ?thesis using distinct_prefixes by blast
qed

section \<open>Cross-references\<close>




end
